theory Spec2Isabelle
  imports Main
begin

section \<open>Data model of the event-detail page (component SpecificEvent)\<close>

text \<open>
  The records follow the TypeScript interfaces of the page. Field names are the source's,
  prefixed where two interfaces share a name (\<open>id\<close>, \<open>name\<close>, \<open>description\<close>).

  Timestamps: the source keeps \<open>releaseTime\<close> and \<open>endTime\<close> as ISO-8601 strings and
  turns them into \<open>Date\<close> objects with \<open>new Date(...)\<close> before every use. A \<open>Date\<close> is
  compared (\<open><\<close>, \<open>>\<close>) and subtracted through its millisecond value, so the model
  stores that value: an \<open>int\<close>, milliseconds since the epoch. Strings that do not parse
  (Invalid Date) are outside the model. \<open>points\<close> is a JavaScript \<open>number\<close>; the model
  keeps the integers, of either sign, since nothing in the page restricts the sign.
\<close>

record Category =
  category_id :: int
  category_name :: string

record Game =
  game_id :: int
  game_name :: string
  game_link :: string

datatype ChallengeType = TEMPORARY | PERMANENT | RACE

datatype Reward = REDBULL | PIZZA | SNACK

record Challenge =
  challenge_id :: int
  title :: string
  description :: string
  points :: int
  type :: ChallengeType
  reward :: Reward
  releaseTime :: int
  endTime :: int
  game :: Game
  categories :: "Category list"
  isCompleted :: bool
  completedAt :: "int option"

record EventInfo =
  event_name :: string
  event_description :: string
  startDate :: int
  endDate :: int
  duration :: int

record EventDetails =
  event_id :: int
  eventInfo :: EventInfo
  challenges :: "Challenge list"

section \<open>Status of a challenge: \<open>getChallengeStatus\<close>\<close>

text \<open>
  The object returned by \<open>getChallengeStatus\<close>. \<open>icon\<close> is an emoji in the source; the
  model keeps its Unicode code points.
\<close>

record StatusInfo =
  status :: string
  color :: string
  bgColor :: string
  icon :: "nat list"

text \<open>
  \<open>now\<close> is the component state \<open>currentTime\<close>, which the source function reads from its
  closure; the model takes it as a second argument.
\<close>

definition getChallengeStatus :: "Challenge \<Rightarrow> int \<Rightarrow> StatusInfo" where
  "getChallengeStatus challenge now =
     (if isCompleted challenge then
        \<lparr>status = ''completed'', color = ''#00ff88'',
         bgColor = ''rgba(0, 255, 136, 0.1)'', icon = [0x2705]\<rparr>
      else if now < releaseTime challenge then
        \<lparr>status = ''upcoming'', color = ''#ffd700'',
         bgColor = ''rgba(255, 215, 0, 0.1)'', icon = [0x23F3]\<rparr>
      else if now > endTime challenge \<and> type challenge \<noteq> PERMANENT then
        \<lparr>status = ''expired'', color = ''#ff4444'',
         bgColor = ''rgba(255, 68, 68, 0.1)'', icon = [0x23F0]\<rparr>
      else
        \<lparr>status = ''active'', color = ''#00ff88'',
         bgColor = ''rgba(0, 255, 136, 0.1)'', icon = [0x1F525]\<rparr>)"

section \<open>Countdown text: \<open>getCountdown\<close>\<close>

text \<open>
  JavaScript arithmetic on the integers the page meets. \<open>%\<close> is the truncated remainder
  (its sign is the dividend's); the divisors of the source are the non-zero constants
  86400, 3600 and 60. \<open>Math.floor(a / b)\<close> for a positive constant \<open>b\<close> is HOL's
  \<open>div\<close>, which rounds down. The library function \<open>differenceInSeconds\<close> of date-fns
  gives the number of full seconds between two dates, truncated towards zero.
\<close>

definition js_rem :: "int \<Rightarrow> int \<Rightarrow> int" where
  "js_rem a b = sgn a * (\<bar>a\<bar> mod \<bar>b\<bar>)"

definition differenceInSeconds :: "int \<Rightarrow> int \<Rightarrow> int" where
  "differenceInSeconds laterDate earlierDate =
     (let d = laterDate - earlierDate in sgn d * (\<bar>d\<bar> div 1000))"

text \<open>
  The text of a countdown is a template literal in the source. The model keeps the
  template and the numbers put into it apart, each number with its unit letter:
  \<^item> \<open>Complete\<close> is the label "Complete" (French, both e with acute accent);
  \<^item> \<open>StartsIn us\<close> is "Demarre dans" followed by the units \<open>us\<close>, as in "Demarre dans 2j 3h";
  \<^item> \<open>Permanent\<close> is the label "Permanent";
  \<^item> \<open>Expire\<close> is the label "Expire" (last e with acute accent);
  \<^item> \<open>Remaining us\<close> is the units \<open>us\<close> followed by "restantes", as in "5m 12s restantes".
\<close>

datatype CountdownText =
    Complete
  | StartsIn "(int \<times> char) list"
  | Permanent
  | Expire
  | Remaining "(int \<times> char) list"

record Countdown =
  text_cd :: CountdownText
  color :: string

definition getCountdown :: "Challenge \<Rightarrow> int \<Rightarrow> Countdown" where
  "getCountdown challenge now =
     (if isCompleted challenge then \<lparr>text_cd = Complete, color = ''#00ff88''\<rparr>
      else if now < releaseTime challenge then
        (let diff = differenceInSeconds (releaseTime challenge) now;
             days = diff div 86400;
             hours = js_rem diff 86400 div 3600;
             minutes = js_rem diff 3600 div 60;
             seconds = js_rem diff 60
         in if days > 0 then
              \<lparr>text_cd = StartsIn [(days, CHR ''j''), (hours, CHR ''h'')], color = ''#ffd700''\<rparr>
            else if hours > 0 then
              \<lparr>text_cd = StartsIn [(hours, CHR ''h''), (minutes, CHR ''m'')], color = ''#ffd700''\<rparr>
            else if minutes > 0 then
              \<lparr>text_cd = StartsIn [(minutes, CHR ''m''), (seconds, CHR ''s'')], color = ''#ffd700''\<rparr>
            else
              \<lparr>text_cd = StartsIn [(seconds, CHR ''s'')], color = ''#ffd700''\<rparr>)
      else if type challenge = PERMANENT then \<lparr>text_cd = Permanent, color = ''#00ff88''\<rparr>
      else if now > endTime challenge then \<lparr>text_cd = Expire, color = ''#ff4444''\<rparr>
      else
        (let diff = differenceInSeconds (endTime challenge) now;
             days = diff div 86400;
             hours = js_rem diff 86400 div 3600;
             minutes = js_rem diff 3600 div 60;
             seconds = js_rem diff 60
         in if diff \<le> 0 then \<lparr>text_cd = Expire, color = ''#ff4444''\<rparr>
            else if days > 0 then
              \<lparr>text_cd = Remaining [(days, CHR ''j''), (hours, CHR ''h'')], color = ''#00ff88''\<rparr>
            else if hours > 0 then
              \<lparr>text_cd = Remaining [(hours, CHR ''h''), (minutes, CHR ''m'')],
               color = (if hours < 1 then ''#ff8800'' else ''#00ff88'')\<rparr>
            else if minutes > 0 then
              \<lparr>text_cd = Remaining [(minutes, CHR ''m''), (seconds, CHR ''s'')],
               color = (if minutes < 10 then ''#ff4444'' else ''#ff8800'')\<rparr>
            else
              \<lparr>text_cd = Remaining [(seconds, CHR ''s'')], color = ''#ff4444''\<rparr>))"

text \<open>The numbers a countdown text shows.\<close>

fun displayed_units :: "CountdownText \<Rightarrow> int list" where
  "displayed_units (StartsIn us) = map fst us"
| "displayed_units (Remaining us) = map fst us"
| "displayed_units Complete = []"
| "displayed_units Permanent = []"
| "displayed_units Expire = []"

section \<open>Statistics and filter counts\<close>

record Stats =
  totalChallenges :: nat
  completedChallenges :: nat
  totalPoints :: int
  earnedPoints :: int
  activeChallenges :: nat
  upcomingChallenges :: nat
  expiredChallenges :: nat

text \<open>
  The body of the \<open>forEach\<close> of the \<open>stats\<close> memo: one challenge, the counters before,
  the counters after.
\<close>

definition stats_step :: "int \<Rightarrow> Challenge \<Rightarrow> Stats \<Rightarrow> Stats" where
  "stats_step now challenge s =
     (let s1 = s\<lparr>totalPoints := totalPoints s + points challenge\<rparr>
      in if isCompleted challenge then
           s1\<lparr>completedChallenges := completedChallenges s1 + 1,
              earnedPoints := earnedPoints s1 + points challenge\<rparr>
         else if now < releaseTime challenge then
           s1\<lparr>upcomingChallenges := upcomingChallenges s1 + 1\<rparr>
         else if now > endTime challenge \<and> type challenge \<noteq> PERMANENT then
           s1\<lparr>expiredChallenges := expiredChallenges s1 + 1\<rparr>
         else
           s1\<lparr>activeChallenges := activeChallenges s1 + 1\<rparr>)"

definition stats :: "EventDetails option \<Rightarrow> int \<Rightarrow> Stats" where
  "stats eventDetails currentTime =
     (case eventDetails of
        None \<Rightarrow>
          \<lparr>totalChallenges = 0, completedChallenges = 0, totalPoints = 0, earnedPoints = 0,
           activeChallenges = 0, upcomingChallenges = 0, expiredChallenges = 0\<rparr>
      | Some ed \<Rightarrow>
          fold (stats_step currentTime) (challenges ed)
            \<lparr>totalChallenges = length (challenges ed), completedChallenges = 0,
             totalPoints = 0, earnedPoints = 0,
             activeChallenges = 0, upcomingChallenges = 0, expiredChallenges = 0\<rparr>)"

record FilterCounts =
  all :: nat
  active :: nat
  upcoming :: nat
  completed :: nat
  expired :: nat

text \<open>
  \<open>counts[status]++\<close> looks the counter up by the status string; a string that names no
  counter would leave the five counters as they are.
\<close>

definition counts_step :: "int \<Rightarrow> Challenge \<Rightarrow> FilterCounts \<Rightarrow> FilterCounts" where
  "counts_step now challenge counts =
     (let counts1 = counts\<lparr>all := all counts + 1\<rparr>;
          st = status (getChallengeStatus challenge now)
      in if st = ''all'' then counts1\<lparr>all := all counts1 + 1\<rparr>
         else if st = ''active'' then counts1\<lparr>active := active counts1 + 1\<rparr>
         else if st = ''upcoming'' then counts1\<lparr>upcoming := upcoming counts1 + 1\<rparr>
         else if st = ''completed'' then counts1\<lparr>completed := completed counts1 + 1\<rparr>
         else if st = ''expired'' then counts1\<lparr>expired := expired counts1 + 1\<rparr>
         else counts1)"

definition getFilterCounts :: "EventDetails option \<Rightarrow> int \<Rightarrow> FilterCounts" where
  "getFilterCounts eventDetails currentTime =
     (case eventDetails of
        None \<Rightarrow> \<lparr>all = 0, active = 0, upcoming = 0, completed = 0, expired = 0\<rparr>
      | Some ed \<Rightarrow>
          fold (counts_step currentTime) (challenges ed)
            \<lparr>all = 0, active = 0, upcoming = 0, completed = 0, expired = 0\<rparr>)"

section \<open>Auto-refresh: the delay to the next status boundary\<close>

text \<open>
  \<open>nextUpdate\<close> starts as \<open>Infinity\<close> and is lowered with \<open>Math.min\<close> by every challenge
  that has a boundary ahead.
\<close>

datatype Delay = Infinity | Finite int

fun Math_min :: "Delay \<Rightarrow> Delay \<Rightarrow> Delay" where
  "Math_min Infinity y = y"
| "Math_min (Finite a) Infinity = Finite a"
| "Math_min (Finite a) (Finite b) = Finite (min a b)"

definition nextUpdate_step :: "int \<Rightarrow> Challenge \<Rightarrow> Delay \<Rightarrow> Delay" where
  "nextUpdate_step currentTime challenge nextUpdate =
     (if releaseTime challenge > currentTime then
        Math_min nextUpdate (Finite (releaseTime challenge - currentTime))
      else if endTime challenge > currentTime then
        Math_min nextUpdate (Finite (endTime challenge - currentTime))
      else nextUpdate)"

definition nextUpdate :: "Challenge list \<Rightarrow> int \<Rightarrow> Delay" where
  "nextUpdate cs currentTime = fold (nextUpdate_step currentTime) cs Infinity"

text \<open>
  \<open>nextBoundary\<close> is the value of \<open>nextUpdate\<close> when the effect sets its timer (the guard
  \<open>nextUpdate < Infinity && nextUpdate > 0\<close>), and \<open>None\<close> when it sets none.
  \<open>autoRefresh\<close> is the whole effect: the delay handed to \<open>setTimeout\<close>, one second
  more than the boundary, or \<open>None\<close> when no timer is set.
\<close>

definition nextBoundary :: "Challenge list \<Rightarrow> int \<Rightarrow> int option" where
  "nextBoundary cs now =
     (case nextUpdate cs now of
        Infinity \<Rightarrow> None
      | Finite n \<Rightarrow> if n > 0 then Some n else None)"

definition autoRefresh :: "EventDetails option \<Rightarrow> int \<Rightarrow> int option" where
  "autoRefresh eventDetails now =
     (case eventDetails of
        None \<Rightarrow> None
      | Some ed \<Rightarrow>
          (case nextBoundary (challenges ed) now of
             None \<Rightarrow> None
           | Some n \<Rightarrow> Some (n + 1000)))"

text \<open>
  The candidate of one challenge as the effect computes it: the time to its release when
  that is ahead, else the time to its end when that is ahead, whatever its completion
  flag and type.
\<close>

definition candidate :: "int \<Rightarrow> Challenge \<Rightarrow> int option" where
  "candidate now challenge =
     (if now < releaseTime challenge then Some (releaseTime challenge - now)
      else if now < endTime challenge then Some (endTime challenge - now)
      else None)"

section \<open>The specification's wording, for comparison\<close>

text \<open>
  The derived status of the specification's data model and its \<open>classify\<close>, written from
  the four priority rules of the specification; \<open>status_name\<close> is the string the page uses
  for each status.
\<close>

datatype ChallengeStatus = Upcoming | Active | Completed | Expired

definition classify_spec :: "Challenge \<Rightarrow> int \<Rightarrow> ChallengeStatus" where
  "classify_spec c now =
     (if isCompleted c then Completed
      else if now < releaseTime c then Upcoming
      else if type c \<noteq> PERMANENT \<and> now > endTime c then Expired
      else Active)"

fun status_name :: "ChallengeStatus \<Rightarrow> string" where
  "status_name Upcoming = ''upcoming''"
| "status_name Active = ''active''"
| "status_name Completed = ''completed''"
| "status_name Expired = ''expired''"

text \<open>
  \<open>nextBoundary\<close> as the specification words it: a candidate per challenge, the end-time
  candidate only for a challenge that is not completed, not permanent and not past its
  end; the result is the least positive candidate.
\<close>

definition candidate_spec :: "int \<Rightarrow> Challenge \<Rightarrow> int option" where
  "candidate_spec now c =
     (if now < releaseTime c then Some (releaseTime c - now)
      else if \<not> isCompleted c \<and> type c \<noteq> PERMANENT \<and> now \<le> endTime c
        then Some (endTime c - now)
      else None)"

definition nextBoundary_spec :: "Challenge list \<Rightarrow> int \<Rightarrow> int option" where
  "nextBoundary_spec cs now =
     (let ps = filter (\<lambda>d. 0 < d) (List.map_filter (candidate_spec now) cs)
      in if ps = [] then None else Some (Min (set ps)))"

text \<open>
  Urgency tiers. The page signals urgency only through the colour of the countdown. The
  remaining-time branch of \<open>getCountdown\<close> uses three colours: green when an hour or more
  remains, orange below one hour, red below ten minutes. The glossary of the
  specification names the tiers normal, warning and critical.
\<close>

datatype UrgencyTier = Normal | Warning | Critical

definition tier_of_color :: "string \<Rightarrow> UrgencyTier option" where
  "tier_of_color col =
     (if col = ''#00ff88'' then Some Normal
      else if col = ''#ff8800'' then Some Warning
      else if col = ''#ff4444'' then Some Critical
      else None)"

text \<open>A CSS colour constant in the form \<open>#rrggbb\<close>.\<close>

definition is_hex_color :: "string \<Rightarrow> bool" where
  "is_hex_color s =
     (case s of
        [] \<Rightarrow> False
      | h # ds \<Rightarrow> h = CHR ''#'' \<and> length ds = 6 \<and> list_all (\<lambda>d. d \<in> set ''0123456789abcdef'') ds)"

section \<open>Counting challenges by status\<close>

text \<open>
  The challenges the memo and the filter counts run over (none while \<open>eventDetails\<close> is
  \<open>null\<close>), and the number of challenges of a list that \<open>getChallengeStatus\<close> gives a
  status string.
\<close>

definition the_challenges :: "EventDetails option \<Rightarrow> Challenge list" where
  "the_challenges eventDetails = (case eventDetails of None \<Rightarrow> [] | Some ed \<Rightarrow> challenges ed)"

definition count_status :: "string \<Rightarrow> int \<Rightarrow> Challenge list \<Rightarrow> nat" where
  "count_status st now cs = length (filter (\<lambda>c. status (getChallengeStatus c now) = st) cs)"

section \<open>Sample data\<close>

text \<open>A temporary challenge released at 0 ms and ending at 5 400 000 ms (90 minutes).\<close>

definition sample_challenge :: Challenge where
  "sample_challenge =
     \<lparr>challenge_id = 1, title = ''Speedrun'', description = ''Finish the first level'',
      points = 50, type = TEMPORARY, reward = PIZZA,
      releaseTime = 0, endTime = 5400000,
      game = \<lparr>game_id = 7, game_name = ''Celeste'', game_link = ''https://example.org''\<rparr>,
      categories = [\<lparr>category_id = 2, category_name = ''Platformer''\<rparr>],
      isCompleted = False, completedAt = None\<rparr>"

definition sample_event :: "Challenge list \<Rightarrow> EventDetails" where
  "sample_event cs =
     \<lparr>event_id = 3,
      eventInfo = \<lparr>event_name = ''LAN'', event_description = ''Winter edition'',
                   startDate = 0, endDate = 86400000, duration = 24\<rparr>,
      challenges = cs\<rparr>"

section \<open>Arithmetic of the countdown\<close>

lemma differenceInSeconds_nonneg:
  "earlier \<le> later \<Longrightarrow> differenceInSeconds later earlier = (later - earlier) div 1000"
  by (simp add: differenceInSeconds_def Let_def sgn_if)

lemma js_rem_nonneg: "0 \<le> a \<Longrightarrow> 0 < b \<Longrightarrow> js_rem a b = a mod b"
  by (simp add: js_rem_def sgn_if)

lemma units_nonneg:
  assumes "0 \<le> diff"
  shows "0 \<le> diff div 86400" and "0 \<le> js_rem diff 86400 div 3600"
    and "0 \<le> js_rem diff 3600 div 60" and "0 \<le> js_rem diff 60"
  using assms by (simp_all add: js_rem_nonneg pos_imp_zdiv_nonneg_iff)

lemma active_iff:
  "status (getChallengeStatus c now) = ''active'' \<longleftrightarrow>
     \<not> isCompleted c \<and> releaseTime c \<le> now \<and> (type c = PERMANENT \<or> now \<le> endTime c)"
  by (auto simp: getChallengeStatus_def)

lemma remaining_colour:
  assumes "0 \<le> diff"
  shows "Countdown.color
     (let days = diff div 86400;
          hours = js_rem diff 86400 div 3600;
          minutes = js_rem diff 3600 div 60;
          seconds = js_rem diff 60
      in if diff \<le> 0 then \<lparr>text_cd = Expire, color = ''#ff4444''\<rparr>
         else if days > 0 then
           \<lparr>text_cd = Remaining [(days, CHR ''j''), (hours, CHR ''h'')], color = ''#00ff88''\<rparr>
         else if hours > 0 then
           \<lparr>text_cd = Remaining [(hours, CHR ''h''), (minutes, CHR ''m'')],
            color = (if hours < 1 then ''#ff8800'' else ''#00ff88'')\<rparr>
         else if minutes > 0 then
           \<lparr>text_cd = Remaining [(minutes, CHR ''m''), (seconds, CHR ''s'')],
            color = (if minutes < 10 then ''#ff4444'' else ''#ff8800'')\<rparr>
         else
           \<lparr>text_cd = Remaining [(seconds, CHR ''s'')], color = ''#ff4444''\<rparr>)
   = (if 3600 \<le> diff then ''#00ff88'' else if 600 \<le> diff then ''#ff8800'' else ''#ff4444'')"
proof -
  have r1: "js_rem diff 86400 = diff mod 86400" and r2: "js_rem diff 3600 = diff mod 3600"
    using assms by (simp_all add: js_rem_nonneg)
  consider "diff = 0" | "0 < diff" "diff < 600" | "600 \<le> diff" "diff < 3600"
    | "3600 \<le> diff" "diff < 86400" | "86400 \<le> diff"
    using assms by linarith
  then show ?thesis
  proof cases
    case 1
    then show ?thesis by simp
  next
    case 2
    then have "diff div 86400 = 0" "diff mod 86400 div 3600 = 0" "diff mod 3600 div 60 < 10"
      by simp_all
    with 2 show ?thesis by (simp add: Let_def r1 r2)
  next
    case 3
    then have "diff div 86400 = 0" "diff mod 86400 div 3600 = 0" "10 \<le> diff mod 3600 div 60"
      by simp_all
    with 3 show ?thesis by (simp add: Let_def r1 r2)
  next
    case 4
    then have "diff div 86400 = 0" "1 \<le> diff mod 86400 div 3600"
      by simp_all
    with 4 show ?thesis by (simp add: Let_def r1 r2)
  next
    case 5
    then have "1 \<le> diff div 86400" by simp
    with 5 show ?thesis by (simp add: Let_def r1 r2)
  qed
qed

section \<open>Properties of the status\<close>

text \<open>
  C1. For every challenge and every instant \<open>now\<close>, the status returned by
  \<open>getChallengeStatus\<close> is the one the priority rules give when applied in order:
  completed when \<open>isCompleted\<close> holds, whatever the timestamps; else upcoming when
  \<open>now < releaseTime\<close>; else expired when the type is not \<open>PERMANENT\<close> and
  \<open>now > endTime\<close>; else active. The function has no failing branch, and its status is
  one of the four status strings for every input, inverted timestamps
  (\<open>endTime < releaseTime\<close>) included.
\<close>

theorem getChallengeStatus_classify:
  "status (getChallengeStatus c now) = status_name (classify_spec c now)
   \<and> status (getChallengeStatus c now) \<in> {''completed'', ''upcoming'', ''expired'', ''active''}"
  by (simp add: getChallengeStatus_def classify_spec_def)

text \<open>The rules at a challenge whose end (5 ms) lies before its release (10 ms).\<close>

theorem getChallengeStatus_classify_witness:
  "status (getChallengeStatus (sample_challenge\<lparr>releaseTime := 10, endTime := 5\<rparr>) 7) = ''upcoming''
   \<and> status (getChallengeStatus (sample_challenge\<lparr>releaseTime := 10, endTime := 5\<rparr>) 20) = ''expired''
   \<and> status (getChallengeStatus
        (sample_challenge\<lparr>releaseTime := 10, endTime := 5, isCompleted := True\<rparr>) 20) = ''completed''"
  using getChallengeStatus_classify [of "sample_challenge\<lparr>releaseTime := 10, endTime := 5\<rparr>" 7]
    getChallengeStatus_classify [of "sample_challenge\<lparr>releaseTime := 10, endTime := 5\<rparr>" 20]
    getChallengeStatus_classify
      [of "sample_challenge\<lparr>releaseTime := 10, endTime := 5, isCompleted := True\<rparr>" 20]
  by (simp add: classify_spec_def sample_challenge_def)

text \<open>
  C2, as stated, fails for a challenge whose end lies before its release: with release at
  10 ms and end at 5 ms, a challenge that is neither permanent nor completed is expired
  at its release instant, upcoming at its end instant, and still upcoming (not expired)
  at 7 ms, after its end.
\<close>

theorem status_boundaries_inverted_counterexample:
  "\<not> isCompleted (sample_challenge\<lparr>releaseTime := 10, endTime := 5\<rparr>)
   \<and> type (sample_challenge\<lparr>releaseTime := 10, endTime := 5\<rparr>) \<noteq> PERMANENT
   \<and> status (getChallengeStatus (sample_challenge\<lparr>releaseTime := 10, endTime := 5\<rparr>) 10) = ''expired''
   \<and> status (getChallengeStatus (sample_challenge\<lparr>releaseTime := 10, endTime := 5\<rparr>) 5) = ''upcoming''
   \<and> status (getChallengeStatus (sample_challenge\<lparr>releaseTime := 10, endTime := 5\<rparr>) 7) \<noteq> ''expired''"
  by (simp add: getChallengeStatus_def sample_challenge_def)

text \<open>
  C2, amended. For every challenge that is neither permanent nor completed and whose
  release is not after its end (\<open>releaseTime \<le> endTime\<close>), the boundaries are inclusive
  on the active side: the status is upcoming at any \<open>now\<close> strictly before the release,
  active at the release instant, active at the end instant, and expired at any \<open>now\<close>
  strictly after the end.
\<close>

theorem status_boundaries:
  assumes "\<not> isCompleted c" and "type c \<noteq> PERMANENT" and "releaseTime c \<le> endTime c"
  shows "(now < releaseTime c \<longrightarrow> status (getChallengeStatus c now) = ''upcoming'')
       \<and> status (getChallengeStatus c (releaseTime c)) = ''active''
       \<and> status (getChallengeStatus c (endTime c)) = ''active''
       \<and> (endTime c < now \<longrightarrow> status (getChallengeStatus c now) = ''expired'')"
  using assms by (simp add: getChallengeStatus_def)

theorem status_boundaries_witness:
  "\<not> isCompleted sample_challenge \<and> type sample_challenge \<noteq> PERMANENT
   \<and> releaseTime sample_challenge \<le> endTime sample_challenge
   \<and> status (getChallengeStatus sample_challenge (-1)) = ''upcoming''
   \<and> status (getChallengeStatus sample_challenge 0) = ''active''
   \<and> status (getChallengeStatus sample_challenge 5400000) = ''active''
   \<and> status (getChallengeStatus sample_challenge 5400001) = ''expired''"
  using status_boundaries [of sample_challenge "-1"] status_boundaries [of sample_challenge 5400001]
  by (simp add: sample_challenge_def)

text \<open>
  C3. For every challenge of type \<open>PERMANENT\<close> and every instant \<open>now\<close>, the status is
  never expired.
\<close>

theorem permanent_never_expired:
  "type c = PERMANENT \<Longrightarrow> status (getChallengeStatus c now) \<noteq> ''expired''"
  by (simp add: getChallengeStatus_def)

theorem permanent_never_expired_witness:
  "type (sample_challenge\<lparr>type := PERMANENT\<rparr>) = PERMANENT
   \<and> status (getChallengeStatus (sample_challenge\<lparr>type := PERMANENT\<rparr>) 9000000) \<noteq> ''expired''"
  using permanent_never_expired [of "sample_challenge\<lparr>type := PERMANENT\<rparr>" 9000000]
  by simp

section \<open>The auto-refresh delay\<close>

lemma Math_min_assoc: "Math_min (Math_min a b) c = Math_min a (Math_min b c)"
  by (cases a; cases b; cases c) (simp_all add: min.assoc)

lemma nextUpdate_step_None:
  "candidate now c = None \<Longrightarrow> nextUpdate_step now c acc = acc"
  by (simp add: nextUpdate_step_def candidate_def split: if_splits)

lemma nextUpdate_step_Some:
  "candidate now c = Some d \<Longrightarrow> nextUpdate_step now c acc = Math_min acc (Finite d)"
  by (auto simp: nextUpdate_step_def candidate_def split: if_splits)

lemma candidate_positive: "candidate now c = Some d \<Longrightarrow> 0 < d"
  by (auto simp: candidate_def split: if_splits)

lemma fold_nextUpdate_step:
  "fold (nextUpdate_step now) cs acc =
     (let ps = List.map_filter (candidate now) cs
      in if ps = [] then acc else Math_min acc (Finite (Min (set ps))))"
proof (induction cs arbitrary: acc)
  case Nil
  show ?case by simp
next
  case (Cons c cs)
  let ?ps = "List.map_filter (candidate now) cs"
  have unroll: "fold (nextUpdate_step now) (c # cs) acc =
      (if ?ps = [] then nextUpdate_step now c acc
       else Math_min (nextUpdate_step now c acc) (Finite (Min (set ?ps))))"
    using Cons.IH [of "nextUpdate_step now c acc"] by (simp add: Let_def)
  show ?case
  proof (cases "candidate now c")
    case None
    then show ?thesis
      unfolding unroll by (simp add: nextUpdate_step_None Let_def)
  next
    case (Some d)
    then show ?thesis
      unfolding unroll by (simp add: nextUpdate_step_Some Math_min_assoc Let_def)
  qed
qed

lemma map_filter_candidate_positive:
  "d \<in> set (List.map_filter (candidate now) cs) \<Longrightarrow> 0 < d"
  by (auto simp: List.map_filter_def dest: candidate_positive)

text \<open>
  C4, as stated, fails: the effect never looks at the completion flag or the type. For a
  completed challenge, and for a permanent one, released at 0 ms and ending at
  5 400 000 ms, at \<open>now\<close> = 1000 ms the effect takes the time to the end as the delay,
  where the specification's \<open>nextBoundary\<close> has no candidate and returns \<open>None\<close>.
\<close>

theorem nextBoundary_completed_counterexample:
  "nextBoundary [sample_challenge\<lparr>isCompleted := True\<rparr>] 1000 = Some 5399000
   \<and> nextBoundary_spec [sample_challenge\<lparr>isCompleted := True\<rparr>] 1000 = None
   \<and> nextBoundary [sample_challenge\<lparr>type := PERMANENT\<rparr>] 1000 = Some 5399000
   \<and> nextBoundary_spec [sample_challenge\<lparr>type := PERMANENT\<rparr>] 1000 = None"
  by (simp add: nextBoundary_def nextUpdate_def nextUpdate_step_def nextBoundary_spec_def
      candidate_spec_def sample_challenge_def)

text \<open>
  C4, amended. For every list of challenges and every instant \<open>now\<close>, \<open>nextBoundary\<close>
  is the minimum over all challenges of the candidate deltas, where the candidate of a
  challenge is \<open>releaseTime - now\<close> when \<open>now < releaseTime\<close>, else \<open>endTime - now\<close>
  when \<open>now < endTime\<close> (whatever the completion flag and the type), else none; it is
  \<open>None\<close> when no challenge has a candidate, in particular for the empty list, and a
  delay it returns is positive.
\<close>

theorem nextBoundary_min_candidates:
  "nextBoundary cs now =
     (let ps = List.map_filter (candidate now) cs
      in if ps = [] then None else Some (Min (set ps)))
   \<and> nextBoundary [] now = None
   \<and> (\<forall>d. nextBoundary cs now = Some d \<longrightarrow> 0 < d)"
proof -
  let ?ps = "List.map_filter (candidate now) cs"
  have pos: "0 < Min (set ?ps)" if "?ps \<noteq> []"
  proof -
    from that have "Min (set ?ps) \<in> set ?ps" by (intro Min_in) simp_all
    then show ?thesis by (rule map_filter_candidate_positive)
  qed
  have eq: "nextBoundary cs now = (if ?ps = [] then None else Some (Min (set ?ps)))"
    using pos by (simp add: nextBoundary_def nextUpdate_def fold_nextUpdate_step Let_def)
  have empty: "nextBoundary [] now = None"
    by (simp add: nextBoundary_def nextUpdate_def)
  have "\<forall>d. nextBoundary cs now = Some d \<longrightarrow> 0 < d"
    using pos by (auto simp: eq split: if_splits)
  with eq empty show ?thesis by (simp add: Let_def)
qed

theorem nextBoundary_min_candidates_witness:
  "nextBoundary [sample_challenge, sample_challenge\<lparr>releaseTime := 2000, isCompleted := True\<rparr>,
       sample_challenge\<lparr>type := PERMANENT, endTime := 1500\<rparr>] 1000 = Some 500
   \<and> nextBoundary [sample_challenge] 5400000 = None"
  using nextBoundary_min_candidates [of "[sample_challenge, sample_challenge\<lparr>releaseTime := 2000, isCompleted := True\<rparr>,
       sample_challenge\<lparr>type := PERMANENT, endTime := 1500\<rparr>]" 1000]
    nextBoundary_min_candidates [of "[sample_challenge]" 5400000]
  by (simp add: candidate_def sample_challenge_def)

section \<open>The scenario of a challenge with half an hour left\<close>

text \<open>
  C5, as stated, fails in its urgency tier: for the temporary, uncompleted challenge
  released one hour before \<open>now\<close> = 3 600 000 ms and ending thirty minutes after it, the
  countdown colour is the orange \<open>#ff8800\<close> of the tier below one hour, not the green of
  the normal tier.
\<close>

theorem scenario_tier_counterexample:
  "releaseTime sample_challenge = 3600000 - 3600000
   \<and> endTime sample_challenge = 3600000 + 1800000
   \<and> type sample_challenge = TEMPORARY \<and> \<not> isCompleted sample_challenge
   \<and> Countdown.color (getCountdown sample_challenge 3600000) = ''#ff8800''
   \<and> tier_of_color (Countdown.color (getCountdown sample_challenge 3600000)) \<noteq> Some Normal"
  by (simp add: getCountdown_def differenceInSeconds_def js_rem_def tier_of_color_def
      sample_challenge_def)

text \<open>
  C5, amended. For a challenge with \<open>releaseTime = now - 1h\<close>, \<open>endTime = now + 30m\<close>,
  type \<open>TEMPORARY\<close> and \<open>isCompleted = false\<close>: the status is active, the countdown
  reads "30m 0s restantes" in the colour \<open>#ff8800\<close>, the warning tier (below one hour,
  not below ten minutes), and \<open>nextBoundary\<close> over the singleton list is exactly thirty
  minutes (1 800 000 ms).
\<close>

theorem scenario_half_hour_left:
  assumes "releaseTime c = now - 3600000" and "endTime c = now + 1800000"
    and "type c = TEMPORARY" and "\<not> isCompleted c"
  shows "status (getChallengeStatus c now) = ''active''
       \<and> getCountdown c now =
           \<lparr>text_cd = Remaining [(30, CHR ''m''), (0, CHR ''s'')], color = ''#ff8800''\<rparr>
       \<and> tier_of_color (Countdown.color (getCountdown c now)) = Some Warning
       \<and> nextBoundary [c] now = Some 1800000"
proof -
  have st: "status (getChallengeStatus c now) = ''active''"
    using assms by (simp add: getChallengeStatus_def)
  have cd: "getCountdown c now =
      \<lparr>text_cd = Remaining [(30, CHR ''m''), (0, CHR ''s'')], color = ''#ff8800''\<rparr>"
    using assms by (simp add: getCountdown_def differenceInSeconds_def js_rem_def)
  have nb: "nextBoundary [c] now = Some 1800000"
    using assms by (simp add: nextBoundary_def nextUpdate_def nextUpdate_step_def)
  show ?thesis using st nb by (simp add: cd tier_of_color_def)
qed

theorem scenario_half_hour_left_witness:
  "releaseTime sample_challenge = 3600000 - 3600000
   \<and> endTime sample_challenge = 3600000 + 1800000
   \<and> type sample_challenge = TEMPORARY \<and> \<not> isCompleted sample_challenge
   \<and> status (getChallengeStatus sample_challenge 3600000) = ''active''
   \<and> text_cd (getCountdown sample_challenge 3600000) = Remaining [(30, CHR ''m''), (0, CHR ''s'')]
   \<and> nextBoundary [sample_challenge] 3600000 = Some 1800000"
  using scenario_half_hour_left [of sample_challenge 3600000]
  by (simp add: sample_challenge_def)

section \<open>The urgency signal of the countdown\<close>

text \<open>
  C6, as stated, fails: for an active temporary challenge with thirty minutes left the
  urgency signal of \<open>getCountdown\<close> is the CSS colour constant \<open>#ff8800\<close>, not a tier
  value, and it is not the only styling signal: \<open>getChallengeStatus\<close> returns a colour
  constant and an icon for the same challenge.
\<close>

theorem countdown_colour_constant_counterexample:
  "status (getChallengeStatus sample_challenge 3600000) = ''active''
   \<and> type sample_challenge \<noteq> PERMANENT
   \<and> Countdown.color (getCountdown sample_challenge 3600000) = ''#ff8800''
   \<and> is_hex_color (Countdown.color (getCountdown sample_challenge 3600000))
   \<and> is_hex_color (StatusInfo.color (getChallengeStatus sample_challenge 3600000))
   \<and> icon (getChallengeStatus sample_challenge 3600000) = [0x1F525]"
  by (simp add: getChallengeStatus_def getCountdown_def differenceInSeconds_def js_rem_def
      is_hex_color_def sample_challenge_def)

text \<open>
  C6, amended. For every active non-permanent challenge, \<open>getCountdown\<close> emits the
  urgency signal as one of three colour constants, chosen by the whole seconds left to
  the end: \<open>#00ff88\<close> from one hour up, \<open>#ff8800\<close> from ten minutes up to one hour,
  \<open>#ff4444\<close> below ten minutes. It is not the only styling signal: the status object of
  the same challenge carries the colour \<open>#00ff88\<close> and a background colour.
\<close>

theorem countdown_urgency_colour:
  assumes "status (getChallengeStatus c now) = ''active''" and "type c \<noteq> PERMANENT"
  shows "Countdown.color (getCountdown c now) =
           (let diff = differenceInSeconds (endTime c) now
            in if 3600 \<le> diff then ''#00ff88''
               else if 600 \<le> diff then ''#ff8800''
               else ''#ff4444'')
       \<and> StatusInfo.color (getChallengeStatus c now) = ''#00ff88''
       \<and> bgColor (getChallengeStatus c now) = ''rgba(0, 255, 136, 0.1)''"
proof -
  from assms have c: "\<not> isCompleted c" "releaseTime c \<le> now" "now \<le> endTime c"
    by (simp_all add: active_iff)
  then have nonneg: "0 \<le> differenceInSeconds (endTime c) now"
    by (simp add: differenceInSeconds_nonneg)
  have "Countdown.color (getCountdown c now) =
      (if 3600 \<le> differenceInSeconds (endTime c) now then ''#00ff88''
       else if 600 \<le> differenceInSeconds (endTime c) now then ''#ff8800''
       else ''#ff4444'')"
    using c assms(2) remaining_colour [OF nonneg]
    by (simp add: getCountdown_def Let_def)
  moreover have "StatusInfo.color (getChallengeStatus c now) = ''#00ff88''"
    "bgColor (getChallengeStatus c now) = ''rgba(0, 255, 136, 0.1)''"
    using c assms(2) by (simp_all add: getChallengeStatus_def)
  ultimately show ?thesis by (simp add: Let_def)
qed

theorem countdown_urgency_colour_witness:
  "status (getChallengeStatus sample_challenge 0) = ''active'' \<and> type sample_challenge \<noteq> PERMANENT
   \<and> Countdown.color (getCountdown sample_challenge 0) = ''#00ff88''
   \<and> Countdown.color (getCountdown sample_challenge 3600000) = ''#ff8800''
   \<and> Countdown.color (getCountdown sample_challenge 5000000) = ''#ff4444''"
  using countdown_urgency_colour [of sample_challenge 0]
    countdown_urgency_colour [of sample_challenge 3600000]
    countdown_urgency_colour [of sample_challenge 5000000]
  by (simp add: active_iff differenceInSeconds_def sample_challenge_def)

section \<open>The countdown never shows a negative unit\<close>

lemma getCountdown_upcoming_units:
  assumes "\<not> isCompleted c" and "now < releaseTime c"
  shows "\<exists>us. text_cd (getCountdown c now) = StartsIn us \<and> (\<forall>u \<in> set us. 0 \<le> fst u)"
proof -
  from assms(2) have "0 \<le> differenceInSeconds (releaseTime c) now"
    by (simp add: differenceInSeconds_nonneg)
  note u = units_nonneg [OF this]
  show ?thesis using assms u by (simp add: getCountdown_def Let_def)
qed

lemma getCountdown_remaining_units:
  assumes "\<not> isCompleted c" and "releaseTime c \<le> now" and "type c \<noteq> PERMANENT" and "now \<le> endTime c"
  shows "text_cd (getCountdown c now) = Expire
       \<or> (0 < differenceInSeconds (endTime c) now
          \<and> (\<exists>us. text_cd (getCountdown c now) = Remaining us \<and> (\<forall>u \<in> set us. 0 \<le> fst u)))"
proof -
  from assms(4) have "0 \<le> differenceInSeconds (endTime c) now"
    by (simp add: differenceInSeconds_nonneg)
  note u = units_nonneg [OF this]
  show ?thesis using assms u by (simp add: getCountdown_def Let_def)
qed

lemma getCountdown_units_nonneg:
  "u \<in> set (displayed_units (text_cd (getCountdown c now))) \<Longrightarrow> 0 \<le> u"
proof -
  assume mem: "u \<in> set (displayed_units (text_cd (getCountdown c now)))"
  consider (finished) "isCompleted c"
    | (before) "\<not> isCompleted c" "now < releaseTime c"
    | (perm) "\<not> isCompleted c" "releaseTime c \<le> now" "type c = PERMANENT"
    | (past) "\<not> isCompleted c" "releaseTime c \<le> now" "type c \<noteq> PERMANENT" "endTime c < now"
    | (running) "\<not> isCompleted c" "releaseTime c \<le> now" "type c \<noteq> PERMANENT" "now \<le> endTime c"
    by linarith
  then show ?thesis
  proof cases
    case finished
    then have "text_cd (getCountdown c now) = Complete" by (simp add: getCountdown_def)
    with mem show ?thesis by simp
  next
    case before
    then obtain us where "text_cd (getCountdown c now) = StartsIn us" "\<forall>u \<in> set us. 0 \<le> fst u"
      using getCountdown_upcoming_units by blast
    with mem show ?thesis by auto
  next
    case perm
    then have "text_cd (getCountdown c now) = Permanent" by (simp add: getCountdown_def)
    with mem show ?thesis by simp
  next
    case past
    then have "text_cd (getCountdown c now) = Expire" by (simp add: getCountdown_def)
    with mem show ?thesis by simp
  next
    case running
    from getCountdown_remaining_units [OF running]
    consider "text_cd (getCountdown c now) = Expire"
      | us where "text_cd (getCountdown c now) = Remaining us" "\<forall>u \<in> set us. 0 \<le> fst u"
      by blast
    then show ?thesis using mem by cases auto
  qed
qed

lemma getCountdown_not_StartsIn:
  "releaseTime c \<le> now \<Longrightarrow> text_cd (getCountdown c now) \<noteq> StartsIn us"
  by (simp add: getCountdown_def Let_def)

lemma getCountdown_not_Remaining:
  assumes "endTime c \<le> now"
  shows "text_cd (getCountdown c now) \<noteq> Remaining us"
proof (cases "now < releaseTime c \<and> \<not> isCompleted c")
  case True
  then obtain vs where "text_cd (getCountdown c now) = StartsIn vs"
    using getCountdown_upcoming_units by blast
  then show ?thesis by simp
next
  case False
  have "differenceInSeconds (endTime c) now \<le> 0" if "now = endTime c"
    using that by (simp add: differenceInSeconds_def)
  with False assms show ?thesis
    by (cases "now = endTime c") (auto simp: getCountdown_def Let_def)
qed

lemma getCountdown_last_second:
  assumes "\<not> isCompleted c" and "now < releaseTime c" and "releaseTime c - 1000 < now"
  shows "text_cd (getCountdown c now) = StartsIn [(0, CHR ''s'')]"
proof -
  from assms have "differenceInSeconds (releaseTime c) now = 0"
    by (simp add: differenceInSeconds_nonneg)
  with assms show ?thesis by (simp add: getCountdown_def js_rem_def)
qed

lemma getCountdown_Remaining_whole_second:
  assumes "\<not> isCompleted c" and "releaseTime c \<le> now" and "type c \<noteq> PERMANENT"
    and "now + 1000 \<le> endTime c"
  shows "\<exists>us. text_cd (getCountdown c now) = Remaining us"
proof -
  from assms(4) have le: "now \<le> endTime c" by simp
  from assms(4) have "1 \<le> (endTime c - now) div 1000"
    by (simp add: pos_imp_zdiv_pos_iff)
  with le have pos: "0 < differenceInSeconds (endTime c) now"
    by (simp add: differenceInSeconds_nonneg)
  from assms(1-3) le pos have "text_cd (getCountdown c now) \<noteq> Expire"
    by (simp add: getCountdown_def Let_def)
  with getCountdown_remaining_units [OF assms(1-3) le] show ?thesis by blast
qed

lemma getCountdown_Expire_no_whole_second:
  assumes "\<not> isCompleted c" and "releaseTime c \<le> now" and "type c \<noteq> PERMANENT"
    and "endTime c < now + 1000"
  shows "text_cd (getCountdown c now) = Expire"
proof (cases "now \<le> endTime c")
  case True
  with assms(4) have "(endTime c - now) div 1000 = 0" by simp
  with True have "differenceInSeconds (endTime c) now = 0"
    by (simp add: differenceInSeconds_nonneg)
  with assms(1-3) True show ?thesis by (simp add: getCountdown_def)
next
  case False
  with assms(1-3) show ?thesis by (simp add: getCountdown_def)
qed

text \<open>
  C7, as stated, fails in its clause on the release instant: for an uncompleted temporary
  challenge whose release and end are the same instant, at \<open>now = releaseTime\<close> the
  status is active, yet the countdown is the expired label; it neither reads zero nor is
  the text of the active state.
\<close>

theorem getCountdown_release_instant_counterexample:
  "\<not> isCompleted (sample_challenge\<lparr>releaseTime := 5400000\<rparr>)
   \<and> releaseTime (sample_challenge\<lparr>releaseTime := 5400000\<rparr>) = 5400000
   \<and> endTime (sample_challenge\<lparr>releaseTime := 5400000\<rparr>) = 5400000
   \<and> status (getChallengeStatus (sample_challenge\<lparr>releaseTime := 5400000\<rparr>) 5400000) = ''active''
   \<and> text_cd (getCountdown (sample_challenge\<lparr>releaseTime := 5400000\<rparr>) 5400000) = Expire
   \<and> displayed_units (text_cd (getCountdown (sample_challenge\<lparr>releaseTime := 5400000\<rparr>) 5400000)) = []"
  by (simp add: getChallengeStatus_def getCountdown_def differenceInSeconds_def
      sample_challenge_def)

text \<open>
  C7, amended. \<open>getCountdown\<close> has no failing branch, and for every challenge and every
  instant \<open>now\<close> no number it displays is negative. A duration that is zero or negative
  is never counted down: once \<open>now\<close> has reached \<open>releaseTime\<close> the text is no longer a
  release countdown, and once \<open>now\<close> has reached \<open>endTime\<close> it is no longer a
  remaining-time countdown. Within the last second before the release the release
  countdown reads "0s". At \<open>now = releaseTime\<close> exactly the text is the completed label
  for a completed challenge, and otherwise "Permanent" for a permanent challenge, the
  remaining-time countdown when at least one whole second is left to \<open>endTime\<close>, and the
  expired label when less than one whole second is left.
\<close>

theorem getCountdown_never_negative:
  "(\<forall>u \<in> set (displayed_units (text_cd (getCountdown c now))). 0 \<le> u)
   \<and> (releaseTime c \<le> now \<longrightarrow> (\<forall>us. text_cd (getCountdown c now) \<noteq> StartsIn us))
   \<and> (endTime c \<le> now \<longrightarrow> (\<forall>us. text_cd (getCountdown c now) \<noteq> Remaining us))
   \<and> (\<not> isCompleted c \<and> now < releaseTime c \<and> releaseTime c - 1000 < now
        \<longrightarrow> text_cd (getCountdown c now) = StartsIn [(0, CHR ''s'')])
   \<and> (isCompleted c \<longrightarrow> text_cd (getCountdown c (releaseTime c)) = Complete)
   \<and> (\<not> isCompleted c \<and> type c = PERMANENT
        \<longrightarrow> text_cd (getCountdown c (releaseTime c)) = Permanent)
   \<and> (\<not> isCompleted c \<and> type c \<noteq> PERMANENT \<and> releaseTime c + 1000 \<le> endTime c
        \<longrightarrow> (\<exists>us. text_cd (getCountdown c (releaseTime c)) = Remaining us))
   \<and> (\<not> isCompleted c \<and> type c \<noteq> PERMANENT \<and> endTime c < releaseTime c + 1000
        \<longrightarrow> text_cd (getCountdown c (releaseTime c)) = Expire)"
proof (intro conjI ballI impI allI)
  fix u assume "u \<in> set (displayed_units (text_cd (getCountdown c now)))"
  then show "0 \<le> u" by (rule getCountdown_units_nonneg)
next
  fix us assume "releaseTime c \<le> now"
  then show "text_cd (getCountdown c now) \<noteq> StartsIn us" by (rule getCountdown_not_StartsIn)
next
  fix us assume "endTime c \<le> now"
  then show "text_cd (getCountdown c now) \<noteq> Remaining us" by (rule getCountdown_not_Remaining)
next
  assume "\<not> isCompleted c \<and> now < releaseTime c \<and> releaseTime c - 1000 < now"
  then show "text_cd (getCountdown c now) = StartsIn [(0, CHR ''s'')]"
    by (simp add: getCountdown_last_second)
next
  assume "isCompleted c"
  then show "text_cd (getCountdown c (releaseTime c)) = Complete"
    by (simp add: getCountdown_def)
next
  assume "\<not> isCompleted c \<and> type c = PERMANENT"
  then show "text_cd (getCountdown c (releaseTime c)) = Permanent"
    by (simp add: getCountdown_def)
next
  assume "\<not> isCompleted c \<and> type c \<noteq> PERMANENT \<and> releaseTime c + 1000 \<le> endTime c"
  then show "\<exists>us. text_cd (getCountdown c (releaseTime c)) = Remaining us"
    by (intro getCountdown_Remaining_whole_second) simp_all
next
  assume "\<not> isCompleted c \<and> type c \<noteq> PERMANENT \<and> endTime c < releaseTime c + 1000"
  then show "text_cd (getCountdown c (releaseTime c)) = Expire"
    by (intro getCountdown_Expire_no_whole_second) simp_all
qed

theorem getCountdown_never_negative_witness:
  "\<not> isCompleted (sample_challenge\<lparr>releaseTime := 100000\<rparr>)
   \<and> type (sample_challenge\<lparr>releaseTime := 100000\<rparr>) \<noteq> PERMANENT
   \<and> 99500 < releaseTime (sample_challenge\<lparr>releaseTime := 100000\<rparr>)
   \<and> releaseTime (sample_challenge\<lparr>releaseTime := 100000\<rparr>) - 1000 < 99500
   \<and> releaseTime (sample_challenge\<lparr>releaseTime := 100000\<rparr>) + 1000
       \<le> endTime (sample_challenge\<lparr>releaseTime := 100000\<rparr>)
   \<and> displayed_units (text_cd (getCountdown (sample_challenge\<lparr>releaseTime := 100000\<rparr>) 500)) = [1, 39]
   \<and> list_all (\<lambda>u. 0 \<le> u)
        (displayed_units (text_cd (getCountdown (sample_challenge\<lparr>releaseTime := 100000\<rparr>) 500)))
   \<and> text_cd (getCountdown (sample_challenge\<lparr>releaseTime := 100000\<rparr>) 99500) = StartsIn [(0, CHR ''s'')]
   \<and> (\<exists>us. text_cd (getCountdown (sample_challenge\<lparr>releaseTime := 100000\<rparr>) 100000) = Remaining us)
   \<and> text_cd (getCountdown (sample_challenge\<lparr>releaseTime := 100000\<rparr>) 100000)
       = Remaining [(1, CHR ''h''), (28, CHR ''m'')]
   \<and> text_cd (getCountdown (sample_challenge\<lparr>releaseTime := 100000\<rparr>) 5400000) = Expire"
proof -
  let ?c = "sample_challenge\<lparr>releaseTime := 100000\<rparr>"
  have pre: "\<not> isCompleted ?c \<and> type ?c \<noteq> PERMANENT \<and> 99500 < releaseTime ?c
      \<and> releaseTime ?c - 1000 < 99500 \<and> releaseTime ?c + 1000 \<le> endTime ?c"
    by (simp add: sample_challenge_def)
  have rel: "releaseTime ?c = 100000" by simp
  have "\<forall>u \<in> set (displayed_units (text_cd (getCountdown ?c 500))). 0 \<le> u"
    using getCountdown_never_negative [of ?c 500] by (rule conjunct1)
  then have a: "list_all (\<lambda>u. 0 \<le> u) (displayed_units (text_cd (getCountdown ?c 500)))"
    by (simp add: list_all_iff)
  have b: "text_cd (getCountdown ?c 99500) = StartsIn [(0, CHR ''s'')]"
    using getCountdown_never_negative [of ?c 99500] pre by blast
  have "\<exists>us. text_cd (getCountdown ?c (releaseTime ?c)) = Remaining us"
    using getCountdown_never_negative [of ?c 500] pre by blast
  then have r: "\<exists>us. text_cd (getCountdown ?c 100000) = Remaining us"
    by (simp only: rel)
  have c: "displayed_units (text_cd (getCountdown ?c 500)) = [1, 39]"
    by (simp add: getCountdown_def differenceInSeconds_def js_rem_def sample_challenge_def)
  have d: "text_cd (getCountdown ?c 100000) = Remaining [(1, CHR ''h''), (28, CHR ''m'')]"
    by (simp add: getCountdown_def differenceInSeconds_def js_rem_def sample_challenge_def)
  have e: "text_cd (getCountdown ?c 5400000) = Expire"
    by (simp add: getCountdown_def differenceInSeconds_def js_rem_def sample_challenge_def)
  from pre c a b r d e show ?thesis by (intro conjI) simp_all
qed

section \<open>Status and countdown at the end instant\<close>

text \<open>
  C9, as stated, fails for a challenge whose end lies before its release: with release at
  10 ms and end at 5 ms, at \<open>now\<close> = 5 ms the status is upcoming, not active, and the
  countdown is the release countdown "Demarre dans 0s", not the expired label.
\<close>

theorem end_instant_inverted_counterexample:
  "\<not> isCompleted (sample_challenge\<lparr>releaseTime := 10, endTime := 5\<rparr>)
   \<and> type (sample_challenge\<lparr>releaseTime := 10, endTime := 5\<rparr>) \<noteq> PERMANENT
   \<and> status (getChallengeStatus (sample_challenge\<lparr>releaseTime := 10, endTime := 5\<rparr>) 5) = ''upcoming''
   \<and> text_cd (getCountdown (sample_challenge\<lparr>releaseTime := 10, endTime := 5\<rparr>) 5)
       = StartsIn [(0, CHR ''s'')]"
  by (simp add: getChallengeStatus_def getCountdown_def differenceInSeconds_def js_rem_def
      sample_challenge_def)

text \<open>
  C9, amended. For every challenge that is neither completed nor permanent and whose
  release is not after its end, at \<open>now\<close> equal to \<open>endTime\<close> the status is active while
  the countdown text is the expired label: the two disagree at the end instant.
\<close>

theorem end_instant_disagreement:
  assumes "\<not> isCompleted c" and "type c \<noteq> PERMANENT" and "releaseTime c \<le> endTime c"
  shows "status (getChallengeStatus c (endTime c)) = ''active''
       \<and> text_cd (getCountdown c (endTime c)) = Expire"
  using assms by (simp add: getChallengeStatus_def getCountdown_def differenceInSeconds_def)

theorem end_instant_disagreement_witness:
  "\<not> isCompleted sample_challenge \<and> type sample_challenge \<noteq> PERMANENT
   \<and> releaseTime sample_challenge \<le> endTime sample_challenge
   \<and> status (getChallengeStatus sample_challenge 5400000) = ''active''
   \<and> text_cd (getCountdown sample_challenge 5400000) = Expire"
  using end_instant_disagreement [of sample_challenge]
  by (simp add: sample_challenge_def)

section \<open>The statistics partition the challenges\<close>

lemma count_status_Cons:
  "count_status st now (c # cs) =
     (if status (getChallengeStatus c now) = st then 1 else 0) + count_status st now cs"
  by (simp add: count_status_def)

lemma count_status_Nil: "count_status st now [] = 0"
  by (simp add: count_status_def)

lemma count_status_total:
  "count_status ''completed'' now cs + count_status ''upcoming'' now cs
     + count_status ''expired'' now cs + count_status ''active'' now cs = length cs"
proof (induction cs)
  case Nil
  show ?case by (simp add: count_status_Nil)
next
  case (Cons c cs)
  have "status (getChallengeStatus c now) \<in> {''completed'', ''upcoming'', ''expired'', ''active''}"
    by (simp add: getChallengeStatus_def)
  then show ?case using Cons.IH by (auto simp: count_status_Cons)
qed

lemma stats_step_fields:
  "totalChallenges (stats_step now c s) = totalChallenges s"
  "completedChallenges (stats_step now c s) =
     completedChallenges s + (if status (getChallengeStatus c now) = ''completed'' then 1 else 0)"
  "upcomingChallenges (stats_step now c s) =
     upcomingChallenges s + (if status (getChallengeStatus c now) = ''upcoming'' then 1 else 0)"
  "expiredChallenges (stats_step now c s) =
     expiredChallenges s + (if status (getChallengeStatus c now) = ''expired'' then 1 else 0)"
  "activeChallenges (stats_step now c s) =
     activeChallenges s + (if status (getChallengeStatus c now) = ''active'' then 1 else 0)"
  "totalPoints (stats_step now c s) = totalPoints s + points c"
  "earnedPoints (stats_step now c s) = earnedPoints s + (if isCompleted c then points c else 0)"
  by (simp_all add: stats_step_def getChallengeStatus_def Let_def)

lemma fold_stats_step:
  "totalChallenges (fold (stats_step now) cs s) = totalChallenges s"
  "completedChallenges (fold (stats_step now) cs s) =
     completedChallenges s + count_status ''completed'' now cs"
  "upcomingChallenges (fold (stats_step now) cs s) =
     upcomingChallenges s + count_status ''upcoming'' now cs"
  "expiredChallenges (fold (stats_step now) cs s) =
     expiredChallenges s + count_status ''expired'' now cs"
  "activeChallenges (fold (stats_step now) cs s) =
     activeChallenges s + count_status ''active'' now cs"
  "totalPoints (fold (stats_step now) cs s) = totalPoints s + sum_list (map points cs)"
  "earnedPoints (fold (stats_step now) cs s) =
     earnedPoints s + sum_list (map points (filter isCompleted cs))"
proof (induction cs arbitrary: s)
  case Nil
  {
    case 1 show ?case by simp
  next
    case 2 show ?case by (simp add: count_status_Nil)
  next
    case 3 show ?case by (simp add: count_status_Nil)
  next
    case 4 show ?case by (simp add: count_status_Nil)
  next
    case 5 show ?case by (simp add: count_status_Nil)
  next
    case 6 show ?case by simp
  next
    case 7 show ?case by simp
  }
next
  case (Cons c cs)
  {
    case 1 show ?case by (simp add: Cons.IH stats_step_fields)
  next
    case 2 show ?case by (simp add: Cons.IH stats_step_fields count_status_Cons)
  next
    case 3 show ?case by (simp add: Cons.IH stats_step_fields count_status_Cons)
  next
    case 4 show ?case by (simp add: Cons.IH stats_step_fields count_status_Cons)
  next
    case 5 show ?case by (simp add: Cons.IH stats_step_fields count_status_Cons)
  next
    case 6 show ?case by (simp add: Cons.IH stats_step_fields)
  next
    case 7 show ?case by (simp add: Cons.IH stats_step_fields)
  }
qed

lemma counts_step_fields:
  "all (counts_step now c k) = all k + 1"
  "completed (counts_step now c k) =
     completed k + (if status (getChallengeStatus c now) = ''completed'' then 1 else 0)"
  "upcoming (counts_step now c k) =
     upcoming k + (if status (getChallengeStatus c now) = ''upcoming'' then 1 else 0)"
  "expired (counts_step now c k) =
     expired k + (if status (getChallengeStatus c now) = ''expired'' then 1 else 0)"
  "active (counts_step now c k) =
     active k + (if status (getChallengeStatus c now) = ''active'' then 1 else 0)"
  by (simp_all add: counts_step_def getChallengeStatus_def Let_def)

lemma fold_counts_step:
  "all (fold (counts_step now) cs k) = all k + length cs"
  "completed (fold (counts_step now) cs k) = completed k + count_status ''completed'' now cs"
  "upcoming (fold (counts_step now) cs k) = upcoming k + count_status ''upcoming'' now cs"
  "expired (fold (counts_step now) cs k) = expired k + count_status ''expired'' now cs"
  "active (fold (counts_step now) cs k) = active k + count_status ''active'' now cs"
proof (induction cs arbitrary: k)
  case Nil
  {
    case 1 show ?case by simp
  next
    case 2 show ?case by (simp add: count_status_Nil)
  next
    case 3 show ?case by (simp add: count_status_Nil)
  next
    case 4 show ?case by (simp add: count_status_Nil)
  next
    case 5 show ?case by (simp add: count_status_Nil)
  }
next
  case (Cons c cs)
  {
    case 1 show ?case by (simp add: Cons.IH counts_step_fields)
  next
    case 2 show ?case by (simp add: Cons.IH counts_step_fields count_status_Cons)
  next
    case 3 show ?case by (simp add: Cons.IH counts_step_fields count_status_Cons)
  next
    case 4 show ?case by (simp add: Cons.IH counts_step_fields count_status_Cons)
  next
    case 5 show ?case by (simp add: Cons.IH counts_step_fields count_status_Cons)
  }
qed

lemma earned_le_total:
  "\<forall>c \<in> set cs. 0 \<le> points c \<Longrightarrow>
     sum_list (map points (filter isCompleted cs)) \<le> sum_list (map points cs)"
  by (induction cs) (auto simp: add_increasing)

lemma stats_fields:
  "totalChallenges (stats ed now) = length (the_challenges ed)"
  "completedChallenges (stats ed now) = count_status ''completed'' now (the_challenges ed)"
  "upcomingChallenges (stats ed now) = count_status ''upcoming'' now (the_challenges ed)"
  "expiredChallenges (stats ed now) = count_status ''expired'' now (the_challenges ed)"
  "activeChallenges (stats ed now) = count_status ''active'' now (the_challenges ed)"
  "totalPoints (stats ed now) = sum_list (map points (the_challenges ed))"
  "earnedPoints (stats ed now) = sum_list (map points (filter isCompleted (the_challenges ed)))"
  by (cases ed; simp add: stats_def the_challenges_def fold_stats_step count_status_Nil)+

lemma getFilterCounts_fields:
  "all (getFilterCounts ed now) = length (the_challenges ed)"
  "completed (getFilterCounts ed now) = count_status ''completed'' now (the_challenges ed)"
  "upcoming (getFilterCounts ed now) = count_status ''upcoming'' now (the_challenges ed)"
  "expired (getFilterCounts ed now) = count_status ''expired'' now (the_challenges ed)"
  "active (getFilterCounts ed now) = count_status ''active'' now (the_challenges ed)"
  by (cases ed; simp add: getFilterCounts_def the_challenges_def fold_counts_step count_status_Nil)+

text \<open>
  C10, as stated, fails in its last part: \<open>points\<close> may be negative, and for an event
  whose only challenge is uncompleted and worth -5 points, \<open>earnedPoints\<close> is 0 and
  \<open>totalPoints\<close> is -5.
\<close>

theorem earnedPoints_negative_counterexample:
  "earnedPoints (stats (Some (sample_event [sample_challenge\<lparr>points := - 5\<rparr>])) 1000) = 0
   \<and> totalPoints (stats (Some (sample_event [sample_challenge\<lparr>points := - 5\<rparr>])) 1000) = - 5
   \<and> \<not> (earnedPoints (stats (Some (sample_event [sample_challenge\<lparr>points := - 5\<rparr>])) 1000)
         \<le> totalPoints (stats (Some (sample_event [sample_challenge\<lparr>points := - 5\<rparr>])) 1000))"
  by (simp add: sample_event_def sample_challenge_def stats_def stats_step_def)

text \<open>
  C10, amended. For every event-details value (\<open>null\<close> included) and every instant
  \<open>now\<close>, the statistics put each challenge into exactly one of the four counters:
  completed + upcoming + expired + active = total, the total is the number of
  challenges, each counter is the number of challenges to which \<open>getChallengeStatus\<close>
  gives that status, and so equals the counter of \<open>getFilterCounts\<close>; and when no
  challenge has negative points, \<open>earnedPoints \<le> totalPoints\<close>.
\<close>

theorem stats_partition:
  "completedChallenges (stats ed now) + upcomingChallenges (stats ed now)
     + expiredChallenges (stats ed now) + activeChallenges (stats ed now)
     = totalChallenges (stats ed now)
   \<and> totalChallenges (stats ed now) = length (the_challenges ed)
   \<and> completedChallenges (stats ed now) = count_status ''completed'' now (the_challenges ed)
   \<and> upcomingChallenges (stats ed now) = count_status ''upcoming'' now (the_challenges ed)
   \<and> expiredChallenges (stats ed now) = count_status ''expired'' now (the_challenges ed)
   \<and> activeChallenges (stats ed now) = count_status ''active'' now (the_challenges ed)
   \<and> completedChallenges (stats ed now) = completed (getFilterCounts ed now)
   \<and> upcomingChallenges (stats ed now) = upcoming (getFilterCounts ed now)
   \<and> expiredChallenges (stats ed now) = expired (getFilterCounts ed now)
   \<and> activeChallenges (stats ed now) = active (getFilterCounts ed now)
   \<and> totalChallenges (stats ed now) = all (getFilterCounts ed now)
   \<and> ((\<forall>c \<in> set (the_challenges ed). 0 \<le> points c)
        \<longrightarrow> earnedPoints (stats ed now) \<le> totalPoints (stats ed now))"
  by (simp add: stats_fields getFilterCounts_fields count_status_total earned_le_total)

theorem stats_partition_witness:
  "list_all (\<lambda>c. 0 \<le> points c) (the_challenges (Some (sample_event
        [sample_challenge, sample_challenge\<lparr>isCompleted := True, points := 20\<rparr>,
         sample_challenge\<lparr>releaseTime := 9000000\<rparr>])))
   \<and> stats (Some (sample_event
        [sample_challenge, sample_challenge\<lparr>isCompleted := True, points := 20\<rparr>,
         sample_challenge\<lparr>releaseTime := 9000000\<rparr>])) 6000000
      = \<lparr>totalChallenges = 3, completedChallenges = 1, totalPoints = 120, earnedPoints = 20,
         activeChallenges = 0, upcomingChallenges = 1, expiredChallenges = 1\<rparr>
   \<and> getFilterCounts (Some (sample_event
        [sample_challenge, sample_challenge\<lparr>isCompleted := True, points := 20\<rparr>,
         sample_challenge\<lparr>releaseTime := 9000000\<rparr>])) 6000000
      = \<lparr>all = 3, active = 0, upcoming = 1, completed = 1, expired = 1\<rparr>"
  using stats_partition [of "Some (sample_event
        [sample_challenge, sample_challenge\<lparr>isCompleted := True, points := 20\<rparr>,
         sample_challenge\<lparr>releaseTime := 9000000\<rparr>])" 6000000]
  by (simp add: the_challenges_def sample_event_def sample_challenge_def stats_def stats_step_def
      getFilterCounts_def counts_step_def getChallengeStatus_def)

end
